theory Spec2Isabelle
  imports Main
begin

section \<open>The DOM as BisFetcher sees it\<close>

text \<open>
  \<^verbatim>\<open>bis.py\<close> reads a page through four operations of the DOM library: \<^verbatim>\<open>find\<close>,
  \<^verbatim>\<open>find_all\<close>, \<^verbatim>\<open>.text\<close> and subscripting a tag by an attribute name. A parsed page
  is a tree of tags and strings. An attribute's value is a string, or, for the
  multi-valued attributes of HTML (\<^verbatim>\<open>class\<close>, \<^verbatim>\<open>rel\<close>), the list of its
  whitespace-separated tokens.
\<close>

datatype attr_val = Str string | Toks "string list"

datatype node =
    Tag (tag_name: string) (tag_attrs: "(string \<times> attr_val) list") (tag_contents: "node list")
  | NavigableString string

text \<open>Python's \<^verbatim>\<open>sep.join(xs)\<close>.\<close>

fun join :: "string \<Rightarrow> string list \<Rightarrow> string" where
  "join sep [] = []"
| "join sep [x] = x"
| "join sep (x # y # ys) = x @ sep @ join sep (y # ys)"

text \<open>All nodes below a node, in document order (the node itself excluded).\<close>

fun descendants :: "node \<Rightarrow> node list" where
  "descendants (Tag n as cs) = concat (map (\<lambda>c. c # descendants c) cs)"
| "descendants (NavigableString s) = []"

text \<open>\<^verbatim>\<open>.text\<close>: the strings below a node, concatenated in document order.\<close>

fun get_text :: "node \<Rightarrow> string" where
  "get_text (Tag n as cs) = concat (map get_text cs)"
| "get_text (NavigableString s) = s"

text \<open>
  One attribute filter \<^verbatim>\<open>key=wanted\<close> against the value a tag carries for the key: an
  absent attribute never matches; a string matches when equal; a token list matches
  when one token is equal, or when the tokens joined by single spaces are.
\<close>

fun matches_value :: "attr_val option \<Rightarrow> string \<Rightarrow> bool" where
  "matches_value None wanted = False"
| "matches_value (Some (Str s)) wanted = (s = wanted)"
| "matches_value (Some (Toks ts)) wanted = (wanted \<in> set ts \<or> join '' '' ts = wanted)"

fun matches_tag :: "string \<Rightarrow> (string \<times> string) list \<Rightarrow> node \<Rightarrow> bool" where
  "matches_tag nm flt (Tag n as cs) =
     (n = nm \<and> list_all (\<lambda>(k, wanted). matches_value (map_of as k) wanted) flt)"
| "matches_tag nm flt (NavigableString s) = False"

definition find_all :: "string \<Rightarrow> (string \<times> string) list \<Rightarrow> node \<Rightarrow> node list" where
  "find_all nm flt nd = filter (matches_tag nm flt) (descendants nd)"

text \<open>\<^verbatim>\<open>find\<close> is the first result of \<^verbatim>\<open>find_all\<close>, or \<^verbatim>\<open>None\<close>.\<close>

definition find_node :: "string \<Rightarrow> (string \<times> string) list \<Rightarrow> node \<Rightarrow> node option" where
  "find_node nm flt nd = (case find_all nm flt nd of [] \<Rightarrow> None | x # _ \<Rightarrow> Some x)"

section \<open>Exceptions, logging, transport\<close>

text \<open>
  The subclasses of \<^verbatim>\<open>Exception\<close> that the two methods can meet; \<^verbatim>\<open>RequestError\<close>
  stands for whatever the transport raises. Both methods catch \<^verbatim>\<open>Exception\<close>.
\<close>

datatype exn = TypeError | KeyError | ValueError | AttributeError | ZeroDivisionError
  | RequestError string

datatype level = INFO | ERROR

datatype log_arg = SArg string | NArg nat | EArg exn

type_synonym log_record = "level \<times> string \<times> log_arg list"

text \<open>
  What \<^verbatim>\<open>self.request\<close> returns: the status code, and the tree that
  \<^verbatim>\<open>BeautifulSoup(response.text, "html.parser")\<close> builds from the body. The method
  \<^verbatim>\<open>request\<close> belongs to the base class; the two methods here take it as a parameter,
  which returns a response or raises.
\<close>

record response =
  status_code :: int
  soup :: node

type_synonym locator = "string \<times> string"

type_synonym request = "string \<Rightarrow> locator option \<Rightarrow> exn + response"

text \<open>\<^verbatim>\<open>x[key]\<close> on the result of a \<^verbatim>\<open>find\<close>: \<^verbatim>\<open>None\<close> is not subscriptable.\<close>

fun getitem :: "node option \<Rightarrow> string \<Rightarrow> exn + attr_val" where
  "getitem None key = Inl TypeError"
| "getitem (Some (NavigableString s)) key = Inl TypeError"
| "getitem (Some (Tag n as cs)) key =
     (case map_of as key of None \<Rightarrow> Inl KeyError | Some v \<Rightarrow> Inr v)"

text \<open>\<^verbatim>\<open>s + v\<close> for a string \<^verbatim>\<open>s\<close>: a list on the right is a TypeError.\<close>

fun str_add :: "string \<Rightarrow> attr_val \<Rightarrow> exn + string" where
  "str_add s (Str v) = Inr (s @ v)"
| "str_add s (Toks ts) = Inl TypeError"

section \<open>BisFetcher\<close>

record fetcher =
  base_url :: string
  search_url :: string
  link_locator :: locator
  link_container_name :: string
  link_container_attrs :: "(string \<times> string) list"
  link_find_all_name :: string
  link_find_all_attrs :: "(string \<times> string) list"
  lint_article_name :: string
  lint_article_attrs :: "(string \<times> string) list"

definition BisFetcher :: fetcher where
  "BisFetcher = \<lparr>
     base_url = ''https://www.bis.org'',
     search_url = ''https://www.bis.org/cbspeeches/index.htm?m=256&cbspeeches_page={page}'',
     link_locator = (''css selector'',
       ''#cbspeeches_list > div > table > tbody > tr:nth-child(10) > td:nth-child(2) > div > div.title''),
     link_container_name = ''table'',
     link_container_attrs = [(''class'', ''documentList'')],
     link_find_all_name = ''tr'',
     link_find_all_attrs = [],
     lint_article_name = ''div'',
     lint_article_attrs = [(''class'', ''title'')] \<rparr>"

record link =
  title :: string
  url :: string

subsection \<open>\<^verbatim>\<open>_parse_page_links\<close>\<close>

text \<open>
  One pass of the body of the \<^verbatim>\<open>for\<close> loop, lines 70 to 85: \<^verbatim>\<open>Inr None\<close> is
  \<^verbatim>\<open>continue\<close>, \<^verbatim>\<open>Inr (Some l)\<close> is \<^verbatim>\<open>links.append(l)\<close>, \<^verbatim>\<open>Inl e\<close> is an exception
  leaving the loop. The second component is what the pass logs.
\<close>

definition article_step ::
  "fetcher \<Rightarrow> int \<Rightarrow> bool \<Rightarrow> nat \<Rightarrow> node \<Rightarrow> (exn + link option) \<times> log_record list" where
  "article_step self print_every verbose article_no article =
     (case find_node (lint_article_name self) (lint_article_attrs self) article of
        None \<Rightarrow> (Inr None, [(INFO, ''No title found for article %s'', [NArg article_no])])
      | Some title_div \<Rightarrow>
          (case getitem (find_node ''a'' [] article) ''href'' of
             Inl e \<Rightarrow> (Inl e, [])
           | Inr href \<Rightarrow>
               (case str_add (base_url self) href of
                  Inl e \<Rightarrow> (Inl e, [])
                | Inr u \<Rightarrow>
                    if verbose \<and> print_every = 0 then (Inl ZeroDivisionError, [])
                    else (Inr (Some \<lparr>title = get_text title_div, url = u\<rparr>),
                          if verbose \<and> int article_no mod print_every = 0
                          then [(INFO, ''Title: %s'', [SArg (get_text title_div)]),
                                (INFO, ''URL: %s'', [SArg u])]
                          else []))))"

text \<open>
  The loop over \<^verbatim>\<open>enumerate(articles)\<close>, with the list \<^verbatim>\<open>links\<close> and the log as
  state. The result holds the exception that ended the loop, if one did.
\<close>

fun articles_loop ::
  "fetcher \<Rightarrow> int \<Rightarrow> bool \<Rightarrow> nat \<Rightarrow> node list \<Rightarrow> link list \<Rightarrow> log_record list
   \<Rightarrow> link list \<times> log_record list \<times> exn option" where
  "articles_loop self print_every verbose article_no [] links lg = (links, lg, None)"
| "articles_loop self print_every verbose article_no (article # rest) links lg =
     (case article_step self print_every verbose article_no article of
        (Inl e, out) \<Rightarrow> (links, lg @ out, Some e)
      | (Inr None, out) \<Rightarrow>
          articles_loop self print_every verbose (Suc article_no) rest links (lg @ out)
      | (Inr (Some l), out) \<Rightarrow>
          articles_loop self print_every verbose (Suc article_no) rest (links @ [l]) (lg @ out))"

text \<open>How the \<^verbatim>\<open>try\<close> block of lines 47 to 85 ends.\<close>

datatype flow = Fallthrough | ReturnNone | Raised exn

definition try_links ::
  "fetcher \<Rightarrow> request \<Rightarrow> string \<Rightarrow> int \<Rightarrow> bool \<Rightarrow> link list \<times> log_record list \<times> flow" where
  "try_links self request page_url print_every verbose =
     (case request page_url (Some (link_locator self)) of
        Inl e \<Rightarrow> ([], [], Raised e)
      | Inr response \<Rightarrow>
          if status_code response = 404
          then ([], [(INFO, ''Page [%s] does not exist, stopping...'', [SArg page_url])],
                ReturnNone)
          else
            (case find_node (link_container_name self) (link_container_attrs self)
                    (soup response) of
               None \<Rightarrow> ([], [], Raised AttributeError)
             | Some section \<Rightarrow>
                 (case articles_loop self print_every verbose 0
                         (find_all (link_find_all_name self) (link_find_all_attrs self) section)
                         [] [] of
                    (links, lg, None) \<Rightarrow> (links, lg, Fallthrough)
                  | (links, lg, Some e) \<Rightarrow> (links, lg, Raised e))))"

definition parse_page_links ::
  "fetcher \<Rightarrow> request \<Rightarrow> string \<Rightarrow> int \<Rightarrow> bool \<Rightarrow> link list option \<times> log_record list" where
  "parse_page_links self request page_url print_every verbose =
     (case try_links self request page_url print_every verbose of
        (links, lg, ReturnNone) \<Rightarrow> (None, lg)
      | (links, lg, Raised e) \<Rightarrow>
          (Some links,
           lg @ [(ERROR, ''Error while fetching the page url: %s'', [SArg page_url]),
                 (ERROR, ''%s'', [EArg e])])
      | (links, lg, Fallthrough) \<Rightarrow> (Some links, lg))"

subsection \<open>\<^verbatim>\<open>_extract_text\<close> and \<^verbatim>\<open>_parse_article_text\<close>\<close>

text \<open>
  The returned dictionary, with its keys \<^verbatim>\<open>categories\<close>, \<^verbatim>\<open>time\<close> and \<^verbatim>\<open>text\<close>
  (the last under the name of the variable that holds it).
\<close>

record document =
  categories :: "string list"
  time :: string
  article_text :: string

text \<open>
  \<^verbatim>\<open>datetime.fromisoformat\<close> and \<^verbatim>\<open>datetime.isoformat\<close> are parameters: the first
  returns a datetime or raises, the second is total.
\<close>

definition extract_text ::
  "(string \<Rightarrow> exn + 'd) \<Rightarrow> ('d \<Rightarrow> string) \<Rightarrow> node \<Rightarrow> node \<Rightarrow> exn + document" where
  "extract_text fromisoformat isoformat entry_content_div entry_meta_div =
     (let p_tags = find_all ''p'' [] entry_content_div;
          text_joined = join [CHR 0x0A] (map get_text p_tags);
          entry_categories = map get_text (find_all ''a'' [(''rel'', ''tag'')] entry_meta_div)
      in case getitem (find_node ''time'' [(''class'', ''entry-time'')] entry_meta_div)
                ''datetime'' of
           Inl e \<Rightarrow> Inl e
         | Inr (Toks ts) \<Rightarrow> Inl TypeError
         | Inr (Str entry_time_str) \<Rightarrow>
             (case fromisoformat entry_time_str of
                Inl e \<Rightarrow> Inl e
              | Inr entry_time \<Rightarrow>
                  Inr \<lparr>categories = entry_categories,
                       time = isoformat entry_time,
                       article_text = text_joined\<rparr>))"

definition parse_article_text ::
  "request \<Rightarrow> (string \<Rightarrow> exn + 'd) \<Rightarrow> ('d \<Rightarrow> string) \<Rightarrow> string
   \<Rightarrow> document option \<times> log_record list" where
  "parse_article_text request fromisoformat isoformat u =
     (let failed = (\<lambda>e. (None,
            [(ERROR, ''Error while scraping the article url: %s'', [SArg u]),
             (ERROR, ''%s'', [EArg e])]))
      in case request u None of
           Inl e \<Rightarrow> failed e
         | Inr response \<Rightarrow>
             (case (find_node ''div'' [(''class'', ''entry-content'')] (soup response),
                    find_node ''div'' [(''class'', ''entry-meta'')] (soup response)) of
                (Some entry_content_div, Some entry_meta_div) \<Rightarrow>
                  (case extract_text fromisoformat isoformat entry_content_div entry_meta_div of
                     Inl e \<Rightarrow> failed e
                   | Inr d \<Rightarrow> (Some d, []))
              | _ \<Rightarrow> (None, [])))"

subsection \<open>Vocabulary of the properties\<close>

text \<open>An item is valid when the title selector finds a node in it (line 73).\<close>

definition has_title :: "fetcher \<Rightarrow> node \<Rightarrow> bool" where
  "has_title self article =
     (find_node (lint_article_name self) (lint_article_attrs self) article \<noteq> None)"

text \<open>
  The record \<open>l\<close> is the one lines 76 to 84 build from the item \<open>art\<close>: the text of its
  title node, and the base URL followed by the \<^verbatim>\<open>href\<close> of its first anchor.
\<close>

abbreviation built_from :: "fetcher \<Rightarrow> link \<Rightarrow> node \<Rightarrow> bool" where
  "built_from self l art \<equiv>
     (\<exists>t a h. find_node (lint_article_name self) (lint_article_attrs self) art = Some t
        \<and> find_node ''a'' [] art = Some a
        \<and> map_of (tag_attrs a) ''href'' = Some (Str h)
        \<and> l = \<lparr>title = get_text t, url = base_url self @ h\<rparr>)"

subsection \<open>Sample pages and transports\<close>

definition serve :: "int \<Rightarrow> node \<Rightarrow> request" where
  "serve code page u loc = Inr \<lparr>status_code = code, soup = page\<rparr>"

definition refuse :: "exn \<Rightarrow> request" where
  "refuse e u loc = Inl e"

definition title_div :: "string \<Rightarrow> node" where
  "title_div t =
     Tag ''div'' [(''class'', Toks [''title''])] (if t = [] then [] else [NavigableString t])"

definition anchor :: "string \<Rightarrow> string \<Rightarrow> node" where
  "anchor h t = Tag ''a'' [(''href'', Str h)] [NavigableString t]"

definition row :: "node list \<Rightarrow> node" where
  "row cells = Tag ''tr'' [] [Tag ''td'' [] cells]"

definition listing :: "node list \<Rightarrow> node" where
  "listing rows = Tag ''[document]'' []
     [Tag ''html'' [] [Tag ''body'' []
        [Tag ''table'' [(''class'', Toks [''documentList''])] rows]]]"

definition p_tag :: "string \<Rightarrow> node" where
  "p_tag t = Tag ''p'' [] (if t = [] then [] else [NavigableString t])"

definition tag_anchor :: "string \<Rightarrow> node" where
  "tag_anchor t = Tag ''a'' [(''href'', Str ''/tag''), (''rel'', Toks [''tag''])] [NavigableString t]"

definition entry_time :: "string \<Rightarrow> node" where
  "entry_time s = Tag ''time'' [(''class'', Toks [''entry-time'']), (''datetime'', Str s)] []"

definition entry_content :: "node list \<Rightarrow> node" where
  "entry_content ps = Tag ''div'' [(''class'', Toks [''entry-content''])] ps"

definition entry_meta :: "node list \<Rightarrow> node" where
  "entry_meta ms = Tag ''div'' [(''class'', Toks [''entry-meta''])] ms"

definition article_page :: "node list \<Rightarrow> node" where
  "article_page divs = Tag ''[document]'' [] [Tag ''html'' [] [Tag ''body'' [] divs]]"

text \<open>
  A stand-in for \<^verbatim>\<open>datetime\<close> in the examples: one timestamp parses, and prints as
  itself; every other string is a ValueError.
\<close>

definition sample_fromisoformat :: "string \<Rightarrow> exn + string" where
  "sample_fromisoformat s = (if s = ''2023-05-04T10:00:00'' then Inr s else Inl ValueError)"

definition sample_isoformat :: "string \<Rightarrow> string" where
  "sample_isoformat d = d"

section \<open>Properties of the loop\<close>

lemma find_node_is_Tag:
  "find_node nm flt nd = Some x \<Longrightarrow> \<exists>as cs. x = Tag nm as cs"
proof -
  assume h: "find_node nm flt nd = Some x"
  then have "x \<in> set (find_all nm flt nd)"
    by (auto simp: find_node_def split: list.splits)
  then have "matches_tag nm flt x"
    by (simp add: find_all_def)
  then show ?thesis
    by (cases x) auto
qed

lemma article_step_Some:
  assumes "fst (article_step self pe vb n art) = Inr (Some l)"
  shows "\<exists>t a h. find_node (lint_article_name self) (lint_article_attrs self) art = Some t
           \<and> find_node ''a'' [] art = Some a
           \<and> map_of (tag_attrs a) ''href'' = Some (Str h)
           \<and> l = \<lparr>title = get_text t, url = base_url self @ h\<rparr>"
proof -
  from assms obtain t where t: "find_node (lint_article_name self) (lint_article_attrs self) art = Some t"
    by (auto simp: article_step_def split: option.splits)
  from assms t obtain v where v: "getitem (find_node ''a'' [] art) ''href'' = Inr v"
    by (auto simp: article_step_def split: sum.splits)
  from assms t v obtain u where u: "str_add (base_url self) v = Inr u"
    by (auto simp: article_step_def split: sum.splits)
  from u obtain h where h: "v = Str h" "u = base_url self @ h"
    by (cases v) auto
  from v obtain a where a: "find_node ''a'' [] art = Some a"
    by (cases "find_node ''a'' [] art") auto
  from find_node_is_Tag [OF a] obtain as cs where tag: "a = Tag ''a'' as cs"
    by blast
  from v a tag h have href: "map_of (tag_attrs a) ''href'' = Some (Str h)"
    by (auto split: option.splits)
  from assms t v u h have "l = \<lparr>title = get_text t, url = base_url self @ h\<rparr>"
    by (auto simp: article_step_def split: if_splits)
  with t a href show ?thesis by blast
qed

lemma article_step_good:
  assumes "find_node (lint_article_name self) (lint_article_attrs self) art = Some t"
    and "find_node ''a'' [] art = Some a"
    and "map_of (tag_attrs a) ''href'' = Some (Str h)"
    and "\<not> (vb \<and> pe = 0)"
  shows "fst (article_step self pe vb n art) = Inr (Some \<lparr>title = get_text t, url = base_url self @ h\<rparr>)"
proof -
  from find_node_is_Tag [OF assms(2)] obtain as cs where tag: "a = Tag ''a'' as cs"
    by blast
  with assms(2,3) have "getitem (find_node ''a'' [] art) ''href'' = Inr (Str h)"
    by simp
  with assms(1,4) show ?thesis
    by (auto simp: article_step_def)
qed

lemma article_step_no_title:
  "find_node (lint_article_name self) (lint_article_attrs self) art = None
   \<Longrightarrow> fst (article_step self pe vb n art) = Inr None"
  by (simp add: article_step_def)

lemma article_step_no_anchor:
  "find_node (lint_article_name self) (lint_article_attrs self) art = Some t
   \<Longrightarrow> find_node ''a'' [] art = None
   \<Longrightarrow> article_step self pe vb n art = (Inl TypeError, [])"
  by (simp add: article_step_def)

lemma articles_loop_append:
  "articles_loop self pe vb n (xs @ ys) links lg =
     (case articles_loop self pe vb n xs links lg of
        (l, g, None) \<Rightarrow> articles_loop self pe vb (n + length xs) ys l g
      | (l, g, Some e) \<Rightarrow> (l, g, Some e))"
  by (induction xs arbitrary: n links lg) (auto split: prod.splits sum.splits option.splits)

lemma articles_loop_emitted:
  "articles_loop self pe vb n arts links lg = (links', lg', r) \<Longrightarrow> l \<in> set links'
   \<Longrightarrow> l \<in> set links \<or> (\<exists>art \<in> set arts. \<exists>k. fst (article_step self pe vb k art) = Inr (Some l))"
proof (induction arts arbitrary: n links lg)
  case Nil
  then show ?case by simp
next
  case (Cons art rest)
  obtain res out where st: "article_step self pe vb n art = (res, out)"
    by (cases "article_step self pe vb n art")
  show ?case
  proof (cases res)
    case (Inl e)
    with Cons.prems st show ?thesis by simp
  next
    case (Inr o1)
    show ?thesis
    proof (cases o1)
      case None
      with Inr st Cons.prems
      have "articles_loop self pe vb (Suc n) rest links (lg @ out) = (links', lg', r)"
        by simp
      from Cons.IH [OF this Cons.prems(2)] show ?thesis by auto
    next
      case (Some l1)
      with Inr st Cons.prems
      have "articles_loop self pe vb (Suc n) rest (links @ [l1]) (lg @ out) = (links', lg', r)"
        by simp
      from Cons.IH [OF this Cons.prems(2)]
      have "l \<in> set (links @ [l1]) \<or> (\<exists>art\<in>set rest. \<exists>k. fst (article_step self pe vb k art) = Inr (Some l))" .
      moreover have "fst (article_step self pe vb n art) = Inr (Some l1)"
        using st Inr Some by simp
      ultimately show ?thesis by auto
    qed
  qed
qed

lemma articles_loop_all_good:
  assumes "\<forall>art \<in> set arts. has_title self art \<longrightarrow>
             (\<exists>a h. find_node ''a'' [] art = Some a \<and> map_of (tag_attrs a) ''href'' = Some (Str h))"
    and "\<not> (vb \<and> pe = 0)"
  shows "\<exists>links' lg'. articles_loop self pe vb n arts links lg = (links @ links', lg', None)
     \<and> list_all2 (\<lambda>l art. built_from self l art)
        links' (filter (has_title self) arts)"
  using assms(1)
proof (induction arts arbitrary: n links lg)
  case Nil
  then show ?case by simp
next
  case (Cons art rest)
  have rest: "\<forall>art \<in> set rest. has_title self art \<longrightarrow>
             (\<exists>a h. find_node ''a'' [] art = Some a \<and> map_of (tag_attrs a) ''href'' = Some (Str h))"
    using Cons.prems by simp
  obtain res out where st: "article_step self pe vb n art = (res, out)"
    by (cases "article_step self pe vb n art")
  show ?case
  proof (cases "has_title self art")
    case False
    then have "res = Inr None"
      using article_step_no_title [of self art pe vb n] st by (simp add: has_title_def)
    with st False Cons.IH [OF rest, of "Suc n" links "lg @ out"] show ?thesis
      by simp
  next
    case True
    then obtain t where t: "find_node (lint_article_name self) (lint_article_attrs self) art = Some t"
      by (auto simp: has_title_def)
    from True Cons.prems obtain a h where
      a: "find_node ''a'' [] art = Some a" and h: "map_of (tag_attrs a) ''href'' = Some (Str h)"
      by auto
    let ?l = "\<lparr>title = get_text t, url = base_url self @ h\<rparr>"
    have res: "res = Inr (Some ?l)"
      using article_step_good [OF t a h assms(2), of n] st by simp
    from Cons.IH [OF rest, of "Suc n" "links @ [?l]" "lg @ out"]
    obtain links' lg' where
      run: "articles_loop self pe vb (Suc n) rest (links @ [?l]) (lg @ out) = ((links @ [?l]) @ links', lg', None)"
      and rel: "list_all2 (\<lambda>l art. built_from self l art)
        links' (filter (has_title self) rest)"
      by blast
    have "articles_loop self pe vb n (art # rest) links lg = (links @ (?l # links'), lg', None)"
      using st res run by simp
    moreover have "list_all2 (\<lambda>l art. built_from self l art)
        (?l # links') (filter (has_title self) (art # rest))"
      using True t a h rel by auto
    ultimately show ?thesis by blast
  qed
qed

section \<open>Properties of \<^verbatim>\<open>_parse_page_links\<close>\<close>

lemma try_links_never_raises_none:
  "try_links self request page_url pe vb = (links, lg, ReturnNone)
   \<longleftrightarrow> (\<exists>response. request page_url (Some (link_locator self)) = Inr response
          \<and> status_code response = 404) \<and> links = []
       \<and> lg = [(INFO, ''Page [%s] does not exist, stopping...'', [SArg page_url])]"
  by (auto simp: try_links_def split: sum.splits option.splits prod.splits)

lemma parse_page_links_listing:
  assumes "request page_url (Some (link_locator self)) = Inr response"
    and "status_code response \<noteq> 404"
    and "find_node (link_container_name self) (link_container_attrs self) (soup response)
           = Some section"
  shows "fst (parse_page_links self request page_url pe vb) =
           Some (fst (articles_loop self pe vb 0
                   (find_all (link_find_all_name self) (link_find_all_attrs self) section) [] []))"
  using assms
  by (auto simp: parse_page_links_def try_links_def split: prod.splits option.splits flow.splits)

lemma parse_page_links_emitted:
  assumes "fst (parse_page_links self request page_url pe vb) = Some links"
    and "l \<in> set links"
  shows "\<exists>response section art.
           request page_url (Some (link_locator self)) = Inr response
         \<and> status_code response \<noteq> 404
         \<and> find_node (link_container_name self) (link_container_attrs self) (soup response)
             = Some section
         \<and> art \<in> set (find_all (link_find_all_name self) (link_find_all_attrs self) section)
         \<and> built_from self l art"
proof (cases "request page_url (Some (link_locator self))")
  case (Inl e)
  with assms show ?thesis
    by (auto simp: parse_page_links_def try_links_def)
next
  case (Inr response)
  show ?thesis
  proof (cases "status_code response = 404")
    case True
    with Inr assms show ?thesis
      by (auto simp: parse_page_links_def try_links_def)
  next
    case False
    show ?thesis
    proof (cases "find_node (link_container_name self) (link_container_attrs self) (soup response)")
      case None
      with Inr False assms show ?thesis
        by (auto simp: parse_page_links_def try_links_def)
    next
      case (Some sec)
      let ?arts = "find_all (link_find_all_name self) (link_find_all_attrs self) sec"
      obtain ls lg r where run: "articles_loop self pe vb 0 ?arts [] [] = (ls, lg, r)"
        by (cases "articles_loop self pe vb 0 ?arts [] []")
      from parse_page_links_listing [where request = request and page_url = page_url, OF Inr False Some, of pe vb] run assms(1)
      have "ls = links" by simp
      with articles_loop_emitted [OF run, of l] assms(2)
      obtain art k where "art \<in> set ?arts" "fst (article_step self pe vb k art) = Inr (Some l)"
        by auto
      with article_step_Some [of self pe vb k art l] Inr False Some show ?thesis
        by blast
    qed
  qed
qed


lemmas sample_defs = serve_def refuse_def title_div_def anchor_def row_def listing_def
  BisFetcher_def find_node_def find_all_def article_step_def has_title_def

text \<open>
  Line 77 concatenates \<^verbatim>\<open>self.base_url\<close> and the \<^verbatim>\<open>href\<close> whatever the \<^verbatim>\<open>href\<close> is.
  An item whose anchor carries the absolute URI \<^verbatim>\<open>https://example.org/doc\<close> is emitted
  with the base URL in front of it, not with the \<^verbatim>\<open>href\<close> unchanged.
\<close>
theorem url_absolute_href_counterexample:
  "fst (parse_page_links BisFetcher
          (serve 200 (listing [row [title_div ''T'', anchor ''https://example.org/doc'' ''x'']]))
          ''u'' 10 False)
     = Some [\<lparr>title = ''T'', url = ''https://www.bis.orghttps://example.org/doc''\<rparr>]
   \<and> ''https://www.bis.orghttps://example.org/doc'' \<noteq> ''https://example.org/doc''"
  by (simp add: parse_page_links_def try_links_def sample_defs)

text \<open>
  Claim C1, as the code has it. For every item with a title node whose first anchor has
  the string \<open>h\<close> as its \<^verbatim>\<open>href\<close>, relative or absolute, the record built for the item
  has the url \<^verbatim>\<open>base_url + h\<close> (for a call that does not combine \<^verbatim>\<open>verbose\<close> with
  \<^verbatim>\<open>print_every = 0\<close>); and the url of every record that \<^verbatim>\<open>_parse_page_links\<close>
  returns is the base URL followed by the \<^verbatim>\<open>href\<close> of the first anchor of an item of
  the page.
\<close>
theorem url_is_base_url_plus_href:
  "(find_node (lint_article_name self) (lint_article_attrs self) art = Some t
      \<longrightarrow> find_node ''a'' [] art = Some a
      \<longrightarrow> map_of (tag_attrs a) ''href'' = Some (Str h)
      \<longrightarrow> \<not> (vb \<and> pe = 0)
      \<longrightarrow> fst (article_step self pe vb n art)
            = Inr (Some \<lparr>title = get_text t, url = base_url self @ h\<rparr>))
   \<and> (fst (parse_page_links self request page_url pe vb) = Some links
      \<longrightarrow> l \<in> set links
      \<longrightarrow> (\<exists>response sec art'.
             request page_url (Some (link_locator self)) = Inr response
           \<and> find_node (link_container_name self) (link_container_attrs self) (soup response)
               = Some sec
           \<and> art' \<in> set (find_all (link_find_all_name self) (link_find_all_attrs self) sec)
           \<and> (\<exists>a' h'. find_node ''a'' [] art' = Some a'
                 \<and> map_of (tag_attrs a') ''href'' = Some (Str h')
                 \<and> url l = base_url self @ h')))"
proof (intro conjI impI)
  assume "find_node (lint_article_name self) (lint_article_attrs self) art = Some t"
    and "find_node ''a'' [] art = Some a"
    and "map_of (tag_attrs a) ''href'' = Some (Str h)"
    and "\<not> (vb \<and> pe = 0)"
  then show "fst (article_step self pe vb n art)
               = Inr (Some \<lparr>title = get_text t, url = base_url self @ h\<rparr>)"
    by (rule article_step_good)
next
  assume "fst (parse_page_links self request page_url pe vb) = Some links" and "l \<in> set links"
  from parse_page_links_emitted [OF this]
  obtain response sec art' where
    "request page_url (Some (link_locator self)) = Inr response"
    "find_node (link_container_name self) (link_container_attrs self) (soup response) = Some sec"
    "art' \<in> set (find_all (link_find_all_name self) (link_find_all_attrs self) sec)"
    "built_from self l art'"
    by blast
  then show "\<exists>response sec art'.
             request page_url (Some (link_locator self)) = Inr response
           \<and> find_node (link_container_name self) (link_container_attrs self) (soup response)
               = Some sec
           \<and> art' \<in> set (find_all (link_find_all_name self) (link_find_all_attrs self) sec)
           \<and> (\<exists>a' h'. find_node ''a'' [] art' = Some a'
                 \<and> map_of (tag_attrs a') ''href'' = Some (Str h')
                 \<and> url l = base_url self @ h')"
    by force
qed

theorem url_is_base_url_plus_href_witness:
  "find_node (lint_article_name BisFetcher) (lint_article_attrs BisFetcher)
      (row [title_div ''T'', anchor ''/path/to/doc'' ''x'']) = Some (title_div ''T'')
   \<and> find_node ''a'' [] (row [title_div ''T'', anchor ''/path/to/doc'' ''x''])
       = Some (anchor ''/path/to/doc'' ''x'')
   \<and> map_of (tag_attrs (anchor ''/path/to/doc'' ''x'')) ''href'' = Some (Str ''/path/to/doc'')
   \<and> \<not> (False \<and> (10::int) = 0)
   \<and> fst (article_step BisFetcher 10 False 0 (row [title_div ''T'', anchor ''/path/to/doc'' ''x'']))
       = Inr (Some \<lparr>title = ''T'', url = ''https://www.bis.org/path/to/doc''\<rparr>)"
  using url_is_base_url_plus_href [of BisFetcher "row [title_div ''T'', anchor ''/path/to/doc'' ''x'']"
      "title_div ''T''" "anchor ''/path/to/doc'' ''x''" "''/path/to/doc''" False 10 0]
  by (simp add: sample_defs)

text \<open>
  Claim C2. When the transport answers with status code 404, \<^verbatim>\<open>_parse_page_links\<close>
  returns \<^verbatim>\<open>None\<close>, which is not the empty list of a page without records; and
  \<^verbatim>\<open>None\<close> is returned in no other case: not when the transport raises, not for another
  status code, not when parsing fails.
\<close>
theorem end_of_pagination_iff_not_found:
  "((\<exists>response. request page_url (Some (link_locator self)) = Inr response
        \<and> status_code response = 404)
      \<longrightarrow> fst (parse_page_links self request page_url pe vb) = None
        \<and> fst (parse_page_links self request page_url pe vb) \<noteq> Some [])
   \<and> (fst (parse_page_links self request page_url pe vb) = None
      \<longrightarrow> (\<exists>response. request page_url (Some (link_locator self)) = Inr response
            \<and> status_code response = 404))"
  by (auto simp: parse_page_links_def try_links_def
           split: sum.splits option.splits prod.splits flow.splits if_splits)

theorem end_of_pagination_iff_not_found_witness:
  "serve 404 (listing []) ''u'' (Some (link_locator BisFetcher))
     = Inr \<lparr>status_code = 404, soup = listing []\<rparr>
   \<and> status_code \<lparr>status_code = 404, soup = listing []\<rparr> = 404
   \<and> fst (parse_page_links BisFetcher (serve 404 (listing [])) ''u'' 10 False) = None
   \<and> fst (parse_page_links BisFetcher (serve 200 (listing [])) ''u'' 10 False) = Some []"
  using end_of_pagination_iff_not_found [of "serve 404 (listing [])" "''u''" BisFetcher 10 False]
    end_of_pagination_iff_not_found [of "serve 200 (listing [])" "''u''" BisFetcher 10 False]
  by (simp add: parse_page_links_def try_links_def sample_defs)


text \<open>
  Claim C4. When the \<^verbatim>\<open>try\<close> block ends in an exception, \<^verbatim>\<open>_parse_page_links\<close>
  returns the list \<^verbatim>\<open>links\<close> as it stood when the exception was raised, never
  \<^verbatim>\<open>None\<close>, and logs the page URL and the exception. The three places an exception
  comes from: the transport raises (the list is empty), the container is not found and
  \<^verbatim>\<open>section.find_all\<close> is called on \<^verbatim>\<open>None\<close> (the list is empty), an item of the loop
  raises (the list holds the records appended so far).
\<close>
theorem exceptions_absorbed:
  "(try_links self request page_url pe vb = (links, lg, Raised e)
      \<longrightarrow> parse_page_links self request page_url pe vb
            = (Some links,
               lg @ [(ERROR, ''Error while fetching the page url: %s'', [SArg page_url]),
                     (ERROR, ''%s'', [EArg e])]))
   \<and> (request page_url (Some (link_locator self)) = Inl e'
      \<longrightarrow> fst (parse_page_links self request page_url pe vb) = Some [])
   \<and> (request page_url (Some (link_locator self)) = Inr response
      \<longrightarrow> status_code response \<noteq> 404
      \<longrightarrow> find_node (link_container_name self) (link_container_attrs self) (soup response) = None
      \<longrightarrow> fst (parse_page_links self request page_url pe vb) = Some [])
   \<and> (request page_url (Some (link_locator self)) = Inr response
      \<longrightarrow> status_code response \<noteq> 404
      \<longrightarrow> find_node (link_container_name self) (link_container_attrs self) (soup response)
            = Some sec
      \<longrightarrow> articles_loop self pe vb 0
             (find_all (link_find_all_name self) (link_find_all_attrs self) sec) [] []
            = (links', lg', Some e'')
      \<longrightarrow> fst (parse_page_links self request page_url pe vb) = Some links')"
  by (simp add: parse_page_links_def try_links_def)

theorem exceptions_absorbed_witness:
  "try_links BisFetcher
     (serve 200 (listing [row [title_div ''T'', anchor ''/a'' ''x''], row [title_div ''S'']]))
     ''u'' 10 False
     = ([\<lparr>title = ''T'', url = ''https://www.bis.org/a''\<rparr>], [], Raised TypeError)
   \<and> parse_page_links BisFetcher
     (serve 200 (listing [row [title_div ''T'', anchor ''/a'' ''x''], row [title_div ''S'']]))
     ''u'' 10 False
     = (Some [\<lparr>title = ''T'', url = ''https://www.bis.org/a''\<rparr>],
        [(ERROR, ''Error while fetching the page url: %s'', [SArg ''u'']),
         (ERROR, ''%s'', [EArg TypeError])])
   \<and> refuse (RequestError ''timeout'') ''u'' (Some (link_locator BisFetcher))
       = Inl (RequestError ''timeout'')
   \<and> fst (parse_page_links BisFetcher (refuse (RequestError ''timeout'')) ''u'' 10 False) = Some []"
proof -
  have raised: "try_links BisFetcher
     (serve 200 (listing [row [title_div ''T'', anchor ''/a'' ''x''], row [title_div ''S'']]))
     ''u'' 10 False
     = ([\<lparr>title = ''T'', url = ''https://www.bis.org/a''\<rparr>], [], Raised TypeError)"
    by (simp add: try_links_def sample_defs)
  have refused: "refuse (RequestError ''timeout'') ''u'' (Some (link_locator BisFetcher))
       = Inl (RequestError ''timeout'')"
    by (simp add: refuse_def)
  from raised refused
    exceptions_absorbed [of BisFetcher
      "serve 200 (listing [row [title_div ''T'', anchor ''/a'' ''x''], row [title_div ''S'']])"
      "''u''" 10 False "[\<lparr>title = ''T'', url = ''https://www.bis.org/a''\<rparr>]" "[]" TypeError]
    exceptions_absorbed [of BisFetcher "refuse (RequestError ''timeout'')" "''u''" 10 False
      _ _ _ "RequestError ''timeout''"]
  show ?thesis by simp
qed

text \<open>
  A page with one valid item (N = 1) and one item without a title node (K = 1), the
  valid item with an anchor: the call returns one record, not N - K = 0.
\<close>
theorem title_skip_count_counterexample:
  "map (has_title BisFetcher)
     (find_all ''tr'' [] (listing [row [anchor ''/a'' ''x''], row [title_div ''T'', anchor ''/b'' ''x'']]))
     = [False, True]
   \<and> fst (parse_page_links BisFetcher
        (serve 200 (listing [row [anchor ''/a'' ''x''], row [title_div ''T'', anchor ''/b'' ''x'']]))
        ''u'' 10 False)
     = Some [\<lparr>title = ''T'', url = ''https://www.bis.org/b''\<rparr>]
   \<and> length [\<lparr>title = ''T'', url = ''https://www.bis.org/b''\<rparr>] \<noteq> 1 - 1"
  by (simp add: parse_page_links_def try_links_def sample_defs)

text \<open>
  Claim C5, as the code has it. On a page that was fetched (status code other than 404)
  and whose container was found, where every valid item has a first anchor with a string
  \<^verbatim>\<open>href\<close>, and for a call that does not combine \<^verbatim>\<open>verbose\<close> with
  \<^verbatim>\<open>print_every = 0\<close>: \<^verbatim>\<open>_parse_page_links\<close> returns exactly one record for each
  valid item, N records in all, whatever the number K of items without a title node, and
  the records are in the order of the valid items in the page.
\<close>
theorem valid_items_yield_records_in_order:
  assumes "request page_url (Some (link_locator self)) = Inr response"
    and "status_code response \<noteq> 404"
    and "find_node (link_container_name self) (link_container_attrs self) (soup response)
           = Some sec"
    and "\<forall>art \<in> set (find_all (link_find_all_name self) (link_find_all_attrs self) sec).
           has_title self art \<longrightarrow>
             (\<exists>a h. find_node ''a'' [] art = Some a \<and> map_of (tag_attrs a) ''href'' = Some (Str h))"
    and "\<not> (vb \<and> pe = 0)"
  shows "\<exists>links. fst (parse_page_links self request page_url pe vb) = Some links
           \<and> length links
               = length (filter (has_title self)
                   (find_all (link_find_all_name self) (link_find_all_attrs self) sec))
           \<and> list_all2 (\<lambda>l art. built_from self l art) links
               (filter (has_title self)
                  (find_all (link_find_all_name self) (link_find_all_attrs self) sec))"
proof -
  let ?arts = "find_all (link_find_all_name self) (link_find_all_attrs self) sec"
  from articles_loop_all_good [OF assms(4,5), of 0 "[]" "[]"]
  obtain links lg where run: "articles_loop self pe vb 0 ?arts [] [] = (links, lg, None)"
    and rel: "list_all2 (\<lambda>l art. built_from self l art) links (filter (has_title self) ?arts)"
    by auto
  from parse_page_links_listing [where request = request and page_url = page_url,
      OF assms(1,2,3), of pe vb] run
  have "fst (parse_page_links self request page_url pe vb) = Some links"
    by simp
  moreover from rel have "length links = length (filter (has_title self) ?arts)"
    by (rule list_all2_lengthD)
  ultimately show ?thesis using rel by blast
qed


theorem valid_items_yield_records_in_order_witness:
  "serve 200
      (listing [row [title_div ''T'', anchor ''/a'' ''x''], row [anchor ''/c'' ''y''],
                row [title_div ''S'', anchor ''/b'' ''x'']])
      ''u'' (Some (link_locator BisFetcher))
     = Inr \<lparr>status_code = 200,
            soup = listing [row [title_div ''T'', anchor ''/a'' ''x''], row [anchor ''/c'' ''y''],
                            row [title_div ''S'', anchor ''/b'' ''x'']]\<rparr>
   \<and> map (has_title BisFetcher)
       [row [title_div ''T'', anchor ''/a'' ''x''], row [anchor ''/c'' ''y''],
        row [title_div ''S'', anchor ''/b'' ''x'']] = [True, False, True]
   \<and> fst (parse_page_links BisFetcher
        (serve 200
          (listing [row [title_div ''T'', anchor ''/a'' ''x''], row [anchor ''/c'' ''y''],
                    row [title_div ''S'', anchor ''/b'' ''x'']]))
        ''u'' 10 False)
     = Some [\<lparr>title = ''T'', url = ''https://www.bis.org/a''\<rparr>,
             \<lparr>title = ''S'', url = ''https://www.bis.org/b''\<rparr>]"
  using valid_items_yield_records_in_order [of
      "serve 200
          (listing [row [title_div ''T'', anchor ''/a'' ''x''], row [anchor ''/c'' ''y''],
                    row [title_div ''S'', anchor ''/b'' ''x'']])"
      "''u''" BisFetcher
      "\<lparr>status_code = 200,
            soup = listing [row [title_div ''T'', anchor ''/a'' ''x''], row [anchor ''/c'' ''y''],
                            row [title_div ''S'', anchor ''/b'' ''x'']]\<rparr>"
      "Tag ''table'' [(''class'', Toks [''documentList''])]
         [row [title_div ''T'', anchor ''/a'' ''x''], row [anchor ''/c'' ''y''],
          row [title_div ''S'', anchor ''/b'' ''x'']]"
      False 10]
  by (simp add: parse_page_links_def try_links_def sample_defs)

text \<open>
  An item with a title node and no anchor is not skipped: \<^verbatim>\<open>article.find("a")\<close> is
  \<^verbatim>\<open>None\<close>, subscripting it raises a TypeError, the loop ends, and the handler of the
  whole page returns the records of the items before that item.
\<close>

lemma missing_anchor_ends_page:
  assumes "request page_url (Some (link_locator self)) = Inr response"
    and "status_code response \<noteq> 404"
    and "find_node (link_container_name self) (link_container_attrs self) (soup response)
           = Some sec"
    and "find_all (link_find_all_name self) (link_find_all_attrs self) sec = before @ bad # after"
    and "articles_loop self pe vb 0 before [] [] = (links, lg, None)"
    and "find_node (lint_article_name self) (lint_article_attrs self) bad = Some t"
    and "find_node ''a'' [] bad = None"
  shows "parse_page_links self request page_url pe vb
           = (Some links,
              lg @ [(ERROR, ''Error while fetching the page url: %s'', [SArg page_url]),
                    (ERROR, ''%s'', [EArg TypeError])])"
proof -
  have "articles_loop self pe vb 0 (before @ bad # after) [] []
          = articles_loop self pe vb (length before) (bad # after) links lg"
    using assms(5) by (simp add: articles_loop_append)
  also have "\<dots> = (links, lg, Some TypeError)"
    using article_step_no_anchor [OF assms(6,7)] by simp
  finally show ?thesis
    using assms(1-4) by (simp add: parse_page_links_def try_links_def)
qed

text \<open>
  Claim C6 asks that an item with a title node and no anchor be skipped and logged, as
  line 73 does for an item without a title node, so that the items after it still
  yield their records. Line 77 has no such test. On a page whose first item has a title
  node and no anchor and whose second item is complete, the call returns no record at
  all, although the second item, alone on a page, yields its record.
\<close>

theorem missing_anchor_drops_later_items:
  "parse_page_links BisFetcher
        (serve 200 (listing [row [title_div ''S''], row [title_div ''T'', anchor ''/b'' ''x'']]))
        ''u'' 10 False
     = (Some [], [(ERROR, ''Error while fetching the page url: %s'', [SArg ''u'']),
                  (ERROR, ''%s'', [EArg TypeError])])
   \<and> fst (parse_page_links BisFetcher
        (serve 200 (listing [row [title_div ''T'', anchor ''/b'' ''x'']]))
        ''u'' 10 False) = Some [\<lparr>title = ''T'', url = ''https://www.bis.org/b''\<rparr>]"
  by (simp add: parse_page_links_def try_links_def sample_defs)

text \<open>
  An item whose title node holds no text is appended with the empty string as its title.
\<close>
theorem empty_title_counterexample:
  "fst (parse_page_links BisFetcher
        (serve 200 (listing [row [title_div [], anchor ''/b'' ''x'']])) ''u'' 10 False)
     = Some [\<lparr>title = [], url = ''https://www.bis.org/b''\<rparr>]"
  by (simp add: parse_page_links_def try_links_def sample_defs)

text \<open>
  Claim C9, as the code has it. The title of every record that \<^verbatim>\<open>_parse_page_links\<close>
  returns is the text of the title node of an item of the page: a record is emitted only
  for an item that has a title node, and its title is empty exactly when that node has
  no text.
\<close>
theorem title_is_title_node_text:
  assumes "fst (parse_page_links self request page_url pe vb) = Some links"
    and "l \<in> set links"
  shows "\<exists>response sec art t.
           request page_url (Some (link_locator self)) = Inr response
         \<and> find_node (link_container_name self) (link_container_attrs self) (soup response)
             = Some sec
         \<and> art \<in> set (find_all (link_find_all_name self) (link_find_all_attrs self) sec)
         \<and> find_node (lint_article_name self) (lint_article_attrs self) art = Some t
         \<and> title l = get_text t"
proof -
  from parse_page_links_emitted [OF assms]
  obtain response sec art where
    "request page_url (Some (link_locator self)) = Inr response"
    "find_node (link_container_name self) (link_container_attrs self) (soup response) = Some sec"
    "art \<in> set (find_all (link_find_all_name self) (link_find_all_attrs self) sec)"
    "built_from self l art"
    by blast
  then show ?thesis by force
qed

theorem title_is_title_node_text_witness:
  "fst (parse_page_links BisFetcher
        (serve 200 (listing [row [title_div ''T'', anchor ''/b'' ''x'']])) ''u'' 10 False)
     = Some [\<lparr>title = ''T'', url = ''https://www.bis.org/b''\<rparr>]
   \<and> \<lparr>title = ''T'', url = ''https://www.bis.org/b''\<rparr>
       \<in> set [\<lparr>title = ''T'', url = ''https://www.bis.org/b''\<rparr>]
   \<and> (\<exists>response sec art t.
           serve 200 (listing [row [title_div ''T'', anchor ''/b'' ''x'']]) ''u''
             (Some (link_locator BisFetcher)) = Inr response
         \<and> find_node (link_container_name BisFetcher) (link_container_attrs BisFetcher)
             (soup response) = Some sec
         \<and> art \<in> set (find_all (link_find_all_name BisFetcher) (link_find_all_attrs BisFetcher) sec)
         \<and> find_node (lint_article_name BisFetcher) (lint_article_attrs BisFetcher) art = Some t
         \<and> title \<lparr>title = ''T'', url = ''https://www.bis.org/b''\<rparr> = get_text t)"
proof -
  have 1: "fst (parse_page_links BisFetcher
        (serve 200 (listing [row [title_div ''T'', anchor ''/b'' ''x'']])) ''u'' 10 False)
     = Some [\<lparr>title = ''T'', url = ''https://www.bis.org/b''\<rparr>]"
    by (simp add: parse_page_links_def try_links_def sample_defs)
  have 2: "\<lparr>title = ''T'', url = ''https://www.bis.org/b''\<rparr>
       \<in> set [\<lparr>title = ''T'', url = ''https://www.bis.org/b''\<rparr>]"
    by simp
  from title_is_title_node_text [OF 1 2] 1 2 show ?thesis by blast
qed


section \<open>Properties of \<^verbatim>\<open>_parse_article_text\<close>\<close>

lemma extract_text_Inr:
  assumes "extract_text f g c m = Inr d"
  shows "\<exists>s dt. getitem (find_node ''time'' [(''class'', ''entry-time'')] m) ''datetime''
                   = Inr (Str s)
           \<and> f s = Inr dt
           \<and> d = \<lparr>categories = map get_text (find_all ''a'' [(''rel'', ''tag'')] m),
                   time = g dt,
                   article_text = join [CHR 0x0A] (map get_text (find_all ''p'' [] c))\<rparr>"
  using assms
  by (auto simp: extract_text_def Let_def split: sum.splits attr_val.splits)

lemma parse_article_text_Some:
  assumes "fst (parse_article_text request f g u) = Some d"
  shows "\<exists>response c m. request u None = Inr response
           \<and> find_node ''div'' [(''class'', ''entry-content'')] (soup response) = Some c
           \<and> find_node ''div'' [(''class'', ''entry-meta'')] (soup response) = Some m
           \<and> extract_text f g c m = Inr d"
  using assms
  by (auto simp: parse_article_text_def Let_def split: sum.splits option.splits)

text \<open>
  Claim C3. \<^verbatim>\<open>_parse_article_text\<close> returns \<^verbatim>\<open>None\<close> when the content container is
  absent, when the metadata container is absent, when the publication-time element or
  its \<^verbatim>\<open>datetime\<close> attribute is missing, and when the attribute does not parse as
  ISO-8601. When it returns a record, both containers were found, the attribute was read
  and parsed, and the record has its three fields filled from them.
\<close>
theorem no_partial_document:
  "(request u None = Inr response
      \<longrightarrow> find_node ''div'' [(''class'', ''entry-content'')] (soup response) = None
      \<longrightarrow> fst (parse_article_text request f g u) = None)
   \<and> (request u None = Inr response
      \<longrightarrow> find_node ''div'' [(''class'', ''entry-meta'')] (soup response) = None
      \<longrightarrow> fst (parse_article_text request f g u) = None)
   \<and> (request u None = Inr response
      \<longrightarrow> find_node ''div'' [(''class'', ''entry-meta'')] (soup response) = Some m
      \<longrightarrow> getitem (find_node ''time'' [(''class'', ''entry-time'')] m) ''datetime'' = Inl e
      \<longrightarrow> fst (parse_article_text request f g u) = None)
   \<and> (request u None = Inr response
      \<longrightarrow> find_node ''div'' [(''class'', ''entry-meta'')] (soup response) = Some m
      \<longrightarrow> getitem (find_node ''time'' [(''class'', ''entry-time'')] m) ''datetime''
            = Inr (Str s)
      \<longrightarrow> f s = Inl e
      \<longrightarrow> fst (parse_article_text request f g u) = None)
   \<and> (fst (parse_article_text request f g u) = Some d
      \<longrightarrow> (\<exists>response' c' m' s' dt.
             request u None = Inr response'
           \<and> find_node ''div'' [(''class'', ''entry-content'')] (soup response') = Some c'
           \<and> find_node ''div'' [(''class'', ''entry-meta'')] (soup response') = Some m'
           \<and> getitem (find_node ''time'' [(''class'', ''entry-time'')] m') ''datetime''
               = Inr (Str s')
           \<and> f s' = Inr dt
           \<and> d = \<lparr>categories = map get_text (find_all ''a'' [(''rel'', ''tag'')] m'),
                   time = g dt,
                   article_text = join [CHR 0x0A] (map get_text (find_all ''p'' [] c'))\<rparr>))"
proof (intro conjI impI)
  assume "fst (parse_article_text request f g u) = Some d"
  from parse_article_text_Some [OF this]
  obtain response' c' m' where r: "request u None = Inr response'"
    "find_node ''div'' [(''class'', ''entry-content'')] (soup response') = Some c'"
    "find_node ''div'' [(''class'', ''entry-meta'')] (soup response') = Some m'"
    and x: "extract_text f g c' m' = Inr d"
    by blast
  from extract_text_Inr [OF x] r
  show "\<exists>response' c' m' s' dt.
             request u None = Inr response'
           \<and> find_node ''div'' [(''class'', ''entry-content'')] (soup response') = Some c'
           \<and> find_node ''div'' [(''class'', ''entry-meta'')] (soup response') = Some m'
           \<and> getitem (find_node ''time'' [(''class'', ''entry-time'')] m') ''datetime''
               = Inr (Str s')
           \<and> f s' = Inr dt
           \<and> d = \<lparr>categories = map get_text (find_all ''a'' [(''rel'', ''tag'')] m'),
                   time = g dt,
                   article_text = join [CHR 0x0A] (map get_text (find_all ''p'' [] c'))\<rparr>"
    by blast
qed (auto simp: parse_article_text_def extract_text_def Let_def split: option.splits sum.splits)

lemmas doc_defs = serve_def refuse_def article_page_def entry_content_def entry_meta_def
  entry_time_def p_tag_def tag_anchor_def sample_fromisoformat_def sample_isoformat_def
  find_node_def find_all_def

theorem no_partial_document_witness:
  "fst (parse_article_text
          (serve 200 (article_page [entry_meta [entry_time ''2023-05-04T10:00:00'']]))
          sample_fromisoformat sample_isoformat ''u'') = None
   \<and> fst (parse_article_text
          (serve 200 (article_page [entry_content [p_tag ''A'']]))
          sample_fromisoformat sample_isoformat ''u'') = None
   \<and> fst (parse_article_text
          (serve 200 (article_page [entry_content [p_tag ''A''],
             entry_meta [Tag ''time'' [(''class'', Toks [''entry-time''])] []]]))
          sample_fromisoformat sample_isoformat ''u'') = None
   \<and> fst (parse_article_text
          (serve 200 (article_page [entry_content [p_tag ''A''],
             entry_meta [entry_time ''yesterday'']]))
          sample_fromisoformat sample_isoformat ''u'') = None
   \<and> fst (parse_article_text
          (serve 200 (article_page [entry_content [p_tag ''A''],
             entry_meta [entry_time ''2023-05-04T10:00:00'']]))
          sample_fromisoformat sample_isoformat ''u'')
       = Some \<lparr>categories = [], time = ''2023-05-04T10:00:00'', article_text = ''A''\<rparr>"
  using
    no_partial_document [where request =
        "serve 200 (article_page [entry_meta [entry_time ''2023-05-04T10:00:00'']])"
      and u = "''u''" and f = sample_fromisoformat and g = sample_isoformat
      and response = "\<lparr>status_code = 200,
        soup = article_page [entry_meta [entry_time ''2023-05-04T10:00:00'']]\<rparr>"]
    no_partial_document [where request =
        "serve 200 (article_page [entry_content [p_tag ''A'']])"
      and u = "''u''" and f = sample_fromisoformat and g = sample_isoformat
      and response = "\<lparr>status_code = 200,
        soup = article_page [entry_content [p_tag ''A'']]\<rparr>"]
    no_partial_document [where request =
        "serve 200 (article_page [entry_content [p_tag ''A''],
             entry_meta [Tag ''time'' [(''class'', Toks [''entry-time''])] []]])"
      and u = "''u''" and f = sample_fromisoformat and g = sample_isoformat
      and response = "\<lparr>status_code = 200,
        soup = article_page [entry_content [p_tag ''A''],
             entry_meta [Tag ''time'' [(''class'', Toks [''entry-time''])] []]]\<rparr>"
      and m = "entry_meta [Tag ''time'' [(''class'', Toks [''entry-time''])] []]"
      and e = KeyError]
    no_partial_document [where request =
        "serve 200 (article_page [entry_content [p_tag ''A''],
             entry_meta [entry_time ''yesterday'']])"
      and u = "''u''" and f = sample_fromisoformat and g = sample_isoformat
      and response = "\<lparr>status_code = 200,
        soup = article_page [entry_content [p_tag ''A''], entry_meta [entry_time ''yesterday'']]\<rparr>"
      and m = "entry_meta [entry_time ''yesterday'']"
      and s = "''yesterday''" and e = ValueError]
    no_partial_document [where request =
        "serve 200 (article_page [entry_content [p_tag ''A''],
             entry_meta [entry_time ''2023-05-04T10:00:00'']])"
      and u = "''u''" and f = sample_fromisoformat and g = sample_isoformat
      and d = "\<lparr>categories = [], time = ''2023-05-04T10:00:00'', article_text = ''A''\<rparr>"]
  by (simp add: parse_article_text_def extract_text_def doc_defs)

text \<open>
  Claim C7. The text field of the record is the texts of the \<^verbatim>\<open>p\<close> nodes of the
  content container, in document order, joined by one newline; a paragraph without text
  contributes the empty string, hence an empty line. The paragraphs \<^verbatim>\<open>A\<close>, empty,
  \<^verbatim>\<open>B\<close> give the four characters \<^verbatim>\<open>A\<close>, newline, newline, \<^verbatim>\<open>B\<close>.
\<close>
theorem text_is_newline_joined_paragraphs:
  "(extract_text f g c m = Inr d
      \<longrightarrow> article_text d = join [CHR 0x0A] (map get_text (find_all ''p'' [] c)))
   \<and> (fst (parse_article_text request f g u) = Some d'
      \<longrightarrow> (\<exists>response c'. request u None = Inr response
            \<and> find_node ''div'' [(''class'', ''entry-content'')] (soup response) = Some c'
            \<and> article_text d' = join [CHR 0x0A] (map get_text (find_all ''p'' [] c'))))"
proof (intro conjI impI)
  assume "extract_text f g c m = Inr d"
  from extract_text_Inr [OF this]
  show "article_text d = join [CHR 0x0A] (map get_text (find_all ''p'' [] c))"
    by auto
next
  assume "fst (parse_article_text request f g u) = Some d'"
  from parse_article_text_Some [OF this]
  obtain response c' m' where r: "request u None = Inr response"
    "find_node ''div'' [(''class'', ''entry-content'')] (soup response) = Some c'"
    and x: "extract_text f g c' m' = Inr d'"
    by blast
  from extract_text_Inr [OF x]
  have "article_text d' = join [CHR 0x0A] (map get_text (find_all ''p'' [] c'))"
    by auto
  with r show "\<exists>response c'. request u None = Inr response
            \<and> find_node ''div'' [(''class'', ''entry-content'')] (soup response) = Some c'
            \<and> article_text d' = join [CHR 0x0A] (map get_text (find_all ''p'' [] c'))"
    by blast
qed

theorem text_is_newline_joined_paragraphs_witness:
  "extract_text sample_fromisoformat sample_isoformat
     (entry_content [p_tag ''A'', p_tag [], p_tag ''B''])
     (entry_meta [entry_time ''2023-05-04T10:00:00''])
     = Inr \<lparr>categories = [], time = ''2023-05-04T10:00:00'',
            article_text = [CHR ''A'', CHR 0x0A, CHR 0x0A, CHR ''B'']\<rparr>
   \<and> map get_text (find_all ''p'' [] (entry_content [p_tag ''A'', p_tag [], p_tag ''B'']))
       = [''A'', [], ''B'']
   \<and> article_text \<lparr>categories = [], time = ''2023-05-04T10:00:00'',
            article_text = [CHR ''A'', CHR 0x0A, CHR 0x0A, CHR ''B'']\<rparr>
       = join [CHR 0x0A]
           (map get_text (find_all ''p'' [] (entry_content [p_tag ''A'', p_tag [], p_tag ''B''])))"
  using text_is_newline_joined_paragraphs [of sample_fromisoformat sample_isoformat
      "entry_content [p_tag ''A'', p_tag [], p_tag ''B'']"
      "entry_meta [entry_time ''2023-05-04T10:00:00'']"
      "\<lparr>categories = [], time = ''2023-05-04T10:00:00'',
            article_text = [CHR ''A'', CHR 0x0A, CHR 0x0A, CHR ''B'']\<rparr>"]
  by (simp add: extract_text_def doc_defs)

text \<open>
  Claim C8. The categories field of the record is the list of the texts of the anchors
  with \<^verbatim>\<open>rel="tag"\<close> in the metadata container, in document order and with duplicates
  kept: the tag anchors Policy, Speech, Policy give that list of three.
\<close>
theorem categories_are_tag_anchor_texts:
  "(extract_text f g c m = Inr d
      \<longrightarrow> categories d = map get_text (find_all ''a'' [(''rel'', ''tag'')] m))
   \<and> (fst (parse_article_text request f g u) = Some d'
      \<longrightarrow> (\<exists>response m'. request u None = Inr response
            \<and> find_node ''div'' [(''class'', ''entry-meta'')] (soup response) = Some m'
            \<and> categories d' = map get_text (find_all ''a'' [(''rel'', ''tag'')] m')))"
proof (intro conjI impI)
  assume "extract_text f g c m = Inr d"
  from extract_text_Inr [OF this]
  show "categories d = map get_text (find_all ''a'' [(''rel'', ''tag'')] m)"
    by auto
next
  assume "fst (parse_article_text request f g u) = Some d'"
  from parse_article_text_Some [OF this]
  obtain response c' m' where r: "request u None = Inr response"
    "find_node ''div'' [(''class'', ''entry-meta'')] (soup response) = Some m'"
    and x: "extract_text f g c' m' = Inr d'"
    by blast
  from extract_text_Inr [OF x]
  have "categories d' = map get_text (find_all ''a'' [(''rel'', ''tag'')] m')"
    by auto
  with r show "\<exists>response m'. request u None = Inr response
            \<and> find_node ''div'' [(''class'', ''entry-meta'')] (soup response) = Some m'
            \<and> categories d' = map get_text (find_all ''a'' [(''rel'', ''tag'')] m')"
    by blast
qed

theorem categories_are_tag_anchor_texts_witness:
  "extract_text sample_fromisoformat sample_isoformat
     (entry_content [])
     (entry_meta [tag_anchor ''Policy'', entry_time ''2023-05-04T10:00:00'',
                  tag_anchor ''Speech'', Tag ''a'' [(''href'', Str ''/author'')] [NavigableString ''Staff''],
                  tag_anchor ''Policy''])
     = Inr \<lparr>categories = [''Policy'', ''Speech'', ''Policy''], time = ''2023-05-04T10:00:00'',
            article_text = []\<rparr>
   \<and> categories \<lparr>categories = [''Policy'', ''Speech'', ''Policy''],
         time = ''2023-05-04T10:00:00'', article_text = []\<rparr>
       = map get_text (find_all ''a'' [(''rel'', ''tag'')]
           (entry_meta [tag_anchor ''Policy'', entry_time ''2023-05-04T10:00:00'',
                  tag_anchor ''Speech'', Tag ''a'' [(''href'', Str ''/author'')] [NavigableString ''Staff''],
                  tag_anchor ''Policy'']))"
  using categories_are_tag_anchor_texts [of sample_fromisoformat sample_isoformat
      "entry_content []"
      "entry_meta [tag_anchor ''Policy'', entry_time ''2023-05-04T10:00:00'',
                  tag_anchor ''Speech'', Tag ''a'' [(''href'', Str ''/author'')] [NavigableString ''Staff''],
                  tag_anchor ''Policy'']"
      "\<lparr>categories = [''Policy'', ''Speech'', ''Policy''], time = ''2023-05-04T10:00:00'',
            article_text = []\<rparr>"]
  by (simp add: extract_text_def doc_defs)

text \<open>
  Claim C10. When the content container has no \<^verbatim>\<open>p\<close> node, and the metadata
  container, its publication-time element and a \<^verbatim>\<open>datetime\<close> attribute that parses are
  present, \<^verbatim>\<open>_parse_article_text\<close> returns a record, not \<^verbatim>\<open>None\<close>, whose text field
  is the empty string, and logs nothing.
\<close>
theorem empty_body_is_a_record:
  assumes "request u None = Inr response"
    and "find_node ''div'' [(''class'', ''entry-content'')] (soup response) = Some c"
    and "find_node ''div'' [(''class'', ''entry-meta'')] (soup response) = Some m"
    and "find_all ''p'' [] c = []"
    and "getitem (find_node ''time'' [(''class'', ''entry-time'')] m) ''datetime'' = Inr (Str s)"
    and "f s = Inr dt"
  shows "parse_article_text request f g u
           = (Some \<lparr>categories = map get_text (find_all ''a'' [(''rel'', ''tag'')] m),
                    time = g dt, article_text = []\<rparr>, [])"
  using assms by (simp add: parse_article_text_def extract_text_def)

theorem empty_body_is_a_record_witness:
  "parse_article_text
     (serve 200 (article_page [entry_content [NavigableString ''no paragraphs here''],
        entry_meta [tag_anchor ''Speech'', entry_time ''2023-05-04T10:00:00'']]))
     sample_fromisoformat sample_isoformat ''u''
     = (Some \<lparr>categories = [''Speech''], time = ''2023-05-04T10:00:00'', article_text = []\<rparr>, [])"
proof -
  let ?c = "entry_content [NavigableString ''no paragraphs here'']"
  let ?m = "entry_meta [tag_anchor ''Speech'', entry_time ''2023-05-04T10:00:00'']"
  let ?r = "\<lparr>status_code = 200, soup = article_page [?c, ?m]\<rparr>"
  have 1: "serve 200 (article_page [?c, ?m]) ''u'' None = Inr ?r"
    by (simp add: serve_def)
  have 2: "find_node ''div'' [(''class'', ''entry-content'')] (soup ?r) = Some ?c"
    by (simp add: doc_defs)
  have 3: "find_node ''div'' [(''class'', ''entry-meta'')] (soup ?r) = Some ?m"
    by (simp add: doc_defs)
  have 4: "find_all ''p'' [] ?c = []"
    by (simp add: doc_defs)
  have 5: "getitem (find_node ''time'' [(''class'', ''entry-time'')] ?m) ''datetime''
             = Inr (Str ''2023-05-04T10:00:00'')"
    by (simp add: doc_defs)
  have 6: "sample_fromisoformat ''2023-05-04T10:00:00'' = Inr ''2023-05-04T10:00:00''"
    by (simp add: sample_fromisoformat_def)
  from empty_body_is_a_record [where request = "serve 200 (article_page [?c, ?m])"
      and u = "''u''" and f = sample_fromisoformat and g = sample_isoformat,
      OF 1 2 3 4 5 6]
  show ?thesis by (simp add: doc_defs)
qed

end
